theory Spec2Isabelle
  imports Complex_Main "HOL-Library.Char_ord" "HOL-Library.List_Lexorder"
begin

section \<open>Python values used by the shift assistant\<close>

text \<open>
  Strings are lists of code points below 256, compared by code point as Python compares
  \<^verbatim>\<open>str\<close>.  A value read with \<^verbatim>\<open>d.get(k)\<close> is an option: \<open>None\<close> is Python's
  \<^verbatim>\<open>None\<close> (key absent or null), and \<^verbatim>\<open>a or b\<close> keeps \<open>a\<close> exactly when it is truthy.
\<close>

definition isspace :: "char \<Rightarrow> bool" where
  "isspace c =
     (let n = (of_char c :: nat)
      in (9 \<le> n \<and> n \<le> 13) \<or> (28 \<le> n \<and> n \<le> 32) \<or> n = 133 \<or> n = 160)"

definition strip :: "string \<Rightarrow> string" where
  "strip s = rev (dropWhile isspace (rev (dropWhile isspace s)))"

definition lower_char :: "char \<Rightarrow> char" where
  "lower_char c =
     (let n = (of_char c :: nat)
      in if (65 \<le> n \<and> n \<le> 90) \<or> (192 \<le> n \<and> n \<le> 222 \<and> n \<noteq> 215)
         then char_of (n + 32) else c)"

definition lower :: "string \<Rightarrow> string" where
  "lower s = map lower_char s"

text \<open>\<^verbatim>\<open>sub in s\<close> on strings: \<open>sub\<close> occurs in \<open>s\<close> as a contiguous block.\<close>

fun contains :: "string \<Rightarrow> string \<Rightarrow> bool" where
  "contains sub [] = (sub = [])"
| "contains sub (c # cs) = (take (length sub) (c # cs) = sub \<or> contains sub cs)"

text \<open>\<^verbatim>\<open>" ".join(parts)\<close>.\<close>

fun join_space :: "string list \<Rightarrow> string" where
  "join_space [] = []"
| "join_space [p] = p"
| "join_space (p # q # ps) = p @ '' '' @ join_space (q # ps)"

definition truthy_str :: "string option \<Rightarrow> bool" where
  "truthy_str v = (case v of None \<Rightarrow> False | Some s \<Rightarrow> s \<noteq> [])"

definition or_str :: "string option \<Rightarrow> string option \<Rightarrow> string option" where
  "or_str a b = (if truthy_str a then a else b)"

text \<open>An f-string field: \<^verbatim>\<open>None\<close> prints as \<^verbatim>\<open>None\<close>, a string as itself.\<close>

definition fmt :: "string option \<Rightarrow> string" where
  "fmt v = (case v of None \<Rightarrow> ''None'' | Some s \<Rightarrow> s)"

text \<open>\<^verbatim>\<open>str(n)\<close> of an integer, as an f-string prints it.\<close>

definition digit_char :: "nat \<Rightarrow> char" where
  "digit_char d = char_of (48 + d)"

fun str_nat :: "nat \<Rightarrow> string" where
  "str_nat n = (if n < 10 then [digit_char n] else str_nat (n div 10) @ [digit_char (n mod 10)])"

declare str_nat.simps [simp del]

definition str_int :: "int \<Rightarrow> string" where
  "str_int i = (if i < 0 then CHR ''-'' # str_nat (nat (- i)) else str_nat (nat i))"

section \<open>Tickets (\<^verbatim>\<open>models.ServiceRequest\<close>, read as dictionaries by \<^verbatim>\<open>tools.py\<close>)\<close>

text \<open>
  A ticket carries the keys the tools read; each is optional, as every access is a
  \<^verbatim>\<open>sr.get(...)\<close>.  \<open>reopen_count\<close> is an extra key (the model allows extras).
  Ages and thresholds are Python floats; here they are exact rationals.
\<close>

record ticket =
  id' :: "string option"
  sr_id :: "string option"
  title :: "string option"
  description :: "string option"
  status :: "string option"
  priority :: "string option"
  last_update :: "string option"
  notes' :: "string option"
  escalation_flag :: "bool option"
  age_hours :: "rat option"
  site :: "string option"
  node :: "string option"
  reopen_count :: "int option"

definition CLOSED_STATUSES :: "string set" where
  "CLOSED_STATUSES = {''closed'', ''resolved'', ''done'', ''completed'', ''cancelled''}"

definition HIGH_PRIORITIES :: "string set" where
  "HIGH_PRIORITIES = {''p1'', ''p2'', ''critical'', ''high'', ''urgent''}"

definition norm_str :: "string option \<Rightarrow> string" where
  "norm_str text = lower (strip (case text of None \<Rightarrow> [] | Some s \<Rightarrow> s))"

definition is_closed :: "string option \<Rightarrow> bool" where
  "is_closed st = (norm_str st \<in> CLOSED_STATUSES)"

text \<open>
  \<^verbatim>\<open>_parse_datetime\<close>: the ISO parser \<^verbatim>\<open>datetime.fromisoformat\<close> is a parameter, giving
  the instant in hours (a naive time taken as UTC) or \<open>None\<close> where Python raises, which
  the source catches.  The clock \<^verbatim>\<open>datetime.now\<close> is the parameter \<open>now\<close>, in hours.
\<close>

definition replace_Z :: "string \<Rightarrow> string" where
  "replace_Z s = concat (map (\<lambda>c. if c = CHR ''Z'' then ''+00:00'' else [c]) s)"

definition parse_datetime :: "(string \<Rightarrow> rat option) \<Rightarrow> string option \<Rightarrow> rat option" where
  "parse_datetime fromiso v =
     (case v of None \<Rightarrow> None
      | Some s \<Rightarrow> if s = [] then None else fromiso (replace_Z s))"

definition ticket_text :: "ticket \<Rightarrow> string" where
  "ticket_text sr = join_space [norm_str (title sr), norm_str (description sr), norm_str (notes' sr)]"

definition ticket_reason :: "ticket \<Rightarrow> string" where
  "ticket_reason sr =
     (let st = norm_str (status sr); text = ticket_text sr
      in if contains ''pending'' st \<or> contains ''waiting'' st then ''Pending response''
         else if contains ''vendor'' text then ''Pending vendor''
         else if contains ''customer'' text then ''Pending customer''
         else if contains ''waiting'' text \<or> contains ''await'' text then ''Waiting action''
         else ''Needs follow-up'')"

section \<open>\<^verbatim>\<open>classify_tickets\<close>\<close>

record open_issue =
  oi_id :: "string option"
  oi_title :: "string option"
  oi_status :: "string option"

record follow_up =
  fu_id :: "string option"
  fu_title :: "string option"
  fu_status :: "string option"
  fu_hours_since_update :: "rat option"
  fu_reason :: "string option"

record escalation =
  esc_id :: "string option"
  esc_title :: "string option"
  esc_priority :: "string option"
  esc_reason :: "string option"

record recurrent_entry =
  rec_id :: "string option"
  rec_title :: "string option"
  rec_reason :: "string option"

text \<open>
  A classifications dictionary.  Each key is optional because the consumers read it with
  \<^verbatim>\<open>.get(key, [])\<close>; \<^verbatim>\<open>classify_tickets\<close> itself always sets all four.
\<close>

record classifications =
  open_issues :: "open_issue list option"
  follow_up_required :: "follow_up list option"
  escalations :: "escalation list option"
  recurrent :: "recurrent_entry list option"

definition hours_since_of :: "(string \<Rightarrow> rat option) \<Rightarrow> rat \<Rightarrow> ticket \<Rightarrow> rat option" where
  "hours_since_of fromiso now sr =
     (case parse_datetime fromiso (last_update sr) of None \<Rightarrow> None
      | Some t \<Rightarrow> Some (now - t))"

definition needs_followup :: "(string \<Rightarrow> rat option) \<Rightarrow> rat \<Rightarrow> rat \<Rightarrow> ticket \<Rightarrow> bool" where
  "needs_followup fromiso now followup_hours sr =
     (let stale = (case hours_since_of fromiso now sr of None \<Rightarrow> False
                   | Some h \<Rightarrow> h \<ge> followup_hours)
      in \<not> is_closed (status sr)
         \<and> (stale \<or> contains ''pending'' (norm_str (status sr))
                   \<or> contains ''waiting'' (norm_str (status sr))))"

definition is_escalation :: "(string \<Rightarrow> rat option) \<Rightarrow> rat \<Rightarrow> rat \<Rightarrow> ticket \<Rightarrow> bool" where
  "is_escalation fromiso now sla_hours sr =
     (let text = ticket_text sr;
          sla_risk = (case hours_since_of fromiso now sr of None \<Rightarrow> False
                      | Some h \<Rightarrow> h \<ge> sla_hours)
      in escalation_flag sr = Some True
         \<or> norm_str (priority sr) \<in> HIGH_PRIORITIES
         \<or> contains ''sla'' text \<or> contains ''breach'' text \<or> contains ''escalat'' text
         \<or> sla_risk)"

text \<open>The entries \<^verbatim>\<open>classify_tickets\<close> appends for a ticket \<open>sr\<close>.\<close>

definition ticket_id :: "ticket \<Rightarrow> string option" where
  "ticket_id sr = or_str (id' sr) (sr_id sr)"

definition open_issue_of :: "ticket \<Rightarrow> open_issue" where
  "open_issue_of sr = \<lparr>oi_id = ticket_id sr, oi_title = title sr, oi_status = status sr\<rparr>"

definition follow_up_of :: "(string \<Rightarrow> rat option) \<Rightarrow> rat \<Rightarrow> ticket \<Rightarrow> follow_up" where
  "follow_up_of fromiso now sr =
     \<lparr>fu_id = ticket_id sr, fu_title = title sr, fu_status = status sr,
      fu_hours_since_update = hours_since_of fromiso now sr,
      fu_reason = Some (ticket_reason sr)\<rparr>"

definition escalation_of :: "ticket \<Rightarrow> escalation" where
  "escalation_of sr =
     \<lparr>esc_id = ticket_id sr, esc_title = title sr, esc_priority = priority sr,
      esc_reason = Some ''SLA risk or high priority''\<rparr>"

definition recurrent_of :: "ticket \<Rightarrow> recurrent_entry" where
  "recurrent_of sr =
     \<lparr>rec_id = ticket_id sr, rec_title = title sr, rec_reason = Some ''Repeated reopen''\<rparr>"

text \<open>
  The loop body of \<^verbatim>\<open>classify_tickets\<close>: the ticket is appended to each of the four
  lists it belongs to.  The accumulator is the four lists built so far.
\<close>

type_synonym class_acc =
  "open_issue list \<times> follow_up list \<times> escalation list \<times> recurrent_entry list"

definition classify_step ::
  "(string \<Rightarrow> rat option) \<Rightarrow> rat \<Rightarrow> rat \<Rightarrow> rat \<Rightarrow> class_acc \<Rightarrow> ticket \<Rightarrow> class_acc" where
  "classify_step fromiso now followup_hours sla_hours acc sr =
     (case acc of (ois, fus, escs, recs) \<Rightarrow>
        (if \<not> is_closed (status sr) then ois @ [open_issue_of sr] else ois,
         if needs_followup fromiso now followup_hours sr
         then fus @ [follow_up_of fromiso now sr] else fus,
         if is_escalation fromiso now sla_hours sr then escs @ [escalation_of sr] else escs,
         if reopen_count sr \<noteq> None \<and> reopen_count sr \<noteq> Some 0
         then recs @ [recurrent_of sr] else recs))"

definition classify_tickets ::
  "(string \<Rightarrow> rat option) \<Rightarrow> rat \<Rightarrow> ticket list \<Rightarrow> rat \<Rightarrow> rat \<Rightarrow> classifications" where
  "classify_tickets fromiso now srs followup_hours sla_hours =
     (case foldl (classify_step fromiso now followup_hours sla_hours) ([], [], [], []) srs of
        (ois, fus, escs, recs) \<Rightarrow>
          \<lparr>open_issues = Some ois, follow_up_required = Some fus,
           escalations = Some escs, recurrent = Some recs\<rparr>)"

section \<open>\<^verbatim>\<open>analyze_tickets\<close>\<close>

text \<open>
  A counting dictionary keeps its insertion order: an association list, updated in place
  (\<^verbatim>\<open>d[k] = d.get(k, 0) + 1\<close>).
\<close>

fun bump :: "(string \<times> nat) list \<Rightarrow> string \<Rightarrow> (string \<times> nat) list" where
  "bump [] k = [(k, 1)]"
| "bump ((k', n) # kvs) k = (if k' = k then (k', n + 1) # kvs else (k', n) # bump kvs k)"

text \<open>
  A stats dictionary.  \<^verbatim>\<open>analyze_tickets\<close> sets every key; the report of an empty batch
  carries only \<^verbatim>\<open>total\<close> and \<^verbatim>\<open>open\<close>, and readers use \<^verbatim>\<open>.get(key, 0)\<close>.
\<close>

record stats =
  total :: "int option"
  open' :: "int option"
  status_counts :: "(string \<times> nat) list option"
  priority_counts :: "(string \<times> nat) list option"
  avg_age_hours :: "rat option"

definition or_unknown :: "string \<Rightarrow> string" where
  "or_unknown s = (if s = [] then ''unknown'' else s)"

text \<open>\<^verbatim>\<open>round(x, 2)\<close>, on the exact rational: to the nearest hundredth, ties to even.\<close>

definition round_half_even :: "rat \<Rightarrow> int" where
  "round_half_even x =
     (let f = \<lfloor>x\<rfloor>; d = x - of_int f
      in if d < 1 / 2 then f else if d > 1 / 2 then f + 1 else if even f then f else f + 1)"

definition round2 :: "rat \<Rightarrow> rat" where
  "round2 x = of_int (round_half_even (x * 100)) / 100"

definition analyze_tickets :: "ticket list \<Rightarrow> stats" where
  "analyze_tickets srs =
     (let statuses = map (\<lambda>sr. or_unknown (norm_str (status sr))) srs;
          priorities = map (\<lambda>sr. or_unknown (norm_str (priority sr))) srs;
          open_count = length (filter (\<lambda>st. \<not> is_closed (Some st)) statuses);
          age_values = concat (map (\<lambda>sr. case age_hours sr of None \<Rightarrow> [] | Some a \<Rightarrow> [a]) srs);
          avg_age = (if age_values = [] then 0
                     else round2 (sum_list age_values / of_nat (length age_values)))
      in \<lparr>total = Some (int (length srs)), open' = Some (int open_count),
          status_counts = Some (foldl bump [] statuses),
          priority_counts = Some (foldl bump [] priorities),
          avg_age_hours = Some avg_age\<rparr>)"

section \<open>The memory document (\<^verbatim>\<open>memory.py\<close>)\<close>

record shift_record =
  ps_timestamp :: string
  ps_shift_id :: "string option"
  ps_summary :: "string option"
  ps_stats :: "stats option"

record memory_stats =
  total_shifts :: "int option"
  total_srs :: "int option"

text \<open>
  The persisted document.  A key may be missing from a document read from disk, so each
  is optional; \<open>m_escalations\<close> is the key \<^verbatim>\<open>escalations\<close> and \<open>m_stats\<close> the key
  \<^verbatim>\<open>stats\<close>.  A dictionary is truthy when it has a key.
\<close>

record memory =
  past_shifts :: "shift_record list option"
  recurring_sites :: "(string \<rightharpoonup> int) option"
  m_escalations :: "escalation list option"
  m_stats :: "memory_stats option"

definition DEFAULT_MEMORY :: memory where
  "DEFAULT_MEMORY =
     \<lparr>past_shifts = Some [], recurring_sites = Some Map.empty, m_escalations = Some [],
      m_stats = Some \<lparr>total_shifts = Some 0, total_srs = Some 0\<rparr>\<rparr>"

definition truthy_memory :: "memory \<Rightarrow> bool" where
  "truthy_memory m =
     (past_shifts m \<noteq> None \<or> recurring_sites m \<noteq> None \<or> m_escalations m \<noteq> None
      \<or> m_stats m \<noteq> None)"

section \<open>\<^verbatim>\<open>detect_persistent_sites\<close>\<close>

record persistent_result =
  persistent_sites :: "string list option"
  current_counts :: "(string \<times> nat) list option"

text \<open>
  The key a ticket is counted under: \<^verbatim>\<open>site\<close> or else \<^verbatim>\<open>node\<close>, stripped; a ticket
  with neither, or with a blank one, is skipped.
\<close>

definition site_key :: "ticket \<Rightarrow> string option" where
  "site_key sr =
     (case or_str (site sr) (node sr) of None \<Rightarrow> None
      | Some s \<Rightarrow> if s = [] then None else if strip s = [] then None else Some (strip s))"

definition count_site :: "(string \<times> nat) list \<Rightarrow> ticket \<Rightarrow> (string \<times> nat) list" where
  "count_site counts sr = (case site_key sr of None \<Rightarrow> counts | Some k \<Rightarrow> bump counts k)"

definition memory_counts_of :: "memory \<Rightarrow> (string \<rightharpoonup> int)" where
  "memory_counts_of m =
     (if truthy_memory m
      then (case recurring_sites m of None \<Rightarrow> Map.empty | Some c \<Rightarrow> c) else Map.empty)"

definition historical :: "(string \<rightharpoonup> int) \<Rightarrow> string \<Rightarrow> int" where
  "historical memory_counts s = (case memory_counts s of None \<Rightarrow> 0 | Some h \<Rightarrow> h)"

definition detect_persistent_sites :: "ticket list \<Rightarrow> memory \<Rightarrow> int \<Rightarrow> persistent_result" where
  "detect_persistent_sites srs m min_recurrence =
     (let counts = foldl count_site [] srs;
          memory_counts = memory_counts_of m;
          persistent =
            map fst (filter (\<lambda>(s, count). int count \<ge> min_recurrence
                                   \<or> historical memory_counts s \<ge> min_recurrence) counts)
      in \<lparr>persistent_sites = Some (sort (remdups persistent)),
          current_counts = Some counts\<rparr>)"

section \<open>\<^verbatim>\<open>create_action_list\<close>\<close>

text \<open>
  An action dictionary.  The sentinel has no \<^verbatim>\<open>sr_id\<close> key (\<open>None\<close>); the other actions
  have one, whose value may be \<^verbatim>\<open>None\<close> (\<open>Some None\<close>).
\<close>

record action_item =
  action :: string
  act_sr_id :: "string option option"
  act_priority :: string

record action_list =
  actions :: "action_item list option"

definition get_list :: "'a list option \<Rightarrow> 'a list" where
  "get_list v = (case v of None \<Rightarrow> [] | Some xs \<Rightarrow> xs)"

definition escalation_action :: "escalation \<Rightarrow> action_item" where
  "escalation_action esc =
     \<lparr>action = ''Escalate SR '' @ fmt (esc_id esc) @ '' to L2/management'',
      act_sr_id = Some (esc_id esc),
      act_priority = (if truthy_str (esc_priority esc) then fmt (esc_priority esc) else ''high'')\<rparr>"

definition follow_up_action :: "follow_up \<Rightarrow> action_item" where
  "follow_up_action fu =
     \<lparr>action = ''Follow up on SR '' @ fmt (fu_id fu) @ '': '' @ fmt (fu_reason fu),
      act_sr_id = Some (fu_id fu),
      act_priority = ''medium''\<rparr>"

definition sentinel_action :: action_item where
  "sentinel_action =
     \<lparr>action = ''No critical actions detected.'', act_sr_id = None, act_priority = ''low''\<rparr>"

definition create_action_list :: "classifications \<Rightarrow> ticket list \<Rightarrow> action_list" where
  "create_action_list cls srs =
     (let acts = map escalation_action (get_list (escalations cls))
                 @ map follow_up_action (get_list (follow_up_required cls))
      in \<lparr>actions = Some (if acts = [] then [sentinel_action] else acts)\<rparr>)"

section \<open>Errors, the reasoning backend and the outside world\<close>

text \<open>
  Every exception of the source is a value.  \<open>BackendError\<close> is whatever a backend call
  raises; the other names are Python's own.
\<close>

datatype py_error = AttributeError | KeyError | ValueError | OSError | BackendError

text \<open>
  What \<^verbatim>\<open>llm.generate_text\<close> does on one call: it raises, returns \<^verbatim>\<open>None\<close> or returns
  a text.
\<close>

datatype text_outcome = TextRaises | TextNone | Text string

text \<open>The payload of which the summary prompt is the JSON dump.\<close>

record payload =
  p_shift_id :: "string option"
  p_stats :: "stats option"
  p_open :: nat
  p_follow_up :: nat
  p_escalations :: nat
  p_persistent_sites :: "string list"
  p_actions :: "action_item list"

text \<open>
  The \<^verbatim>\<open>persistent_sites\<close> argument of \<^verbatim>\<open>generate_summary\<close> is a list of names or a
  result dictionary; \<open>None\<close> is any other value, such as an unset state slot.
\<close>

datatype sites_arg = SitesList "string list" | SitesDict persistent_result

record email_result =
  sent :: bool
  e_message :: string
  e_to :: "string option"

text \<open>
  The report of a run.  \<open>rp_summary\<close>, \<open>rp_stats\<close> and \<open>rp_classifications\<close> are copied
  from state slots, which may hold \<^verbatim>\<open>None\<close>.
\<close>

record report =
  rp_shift_id :: "string option"
  rp_summary :: "string option"
  rp_stats :: "stats option"
  rp_classifications :: "classifications option"
  rp_actions :: "action_item list"
  rp_persistent_sites :: "string list"

record run_result = report +
  rr_email :: "email_result option"
  rr_memory_updated :: bool

text \<open>
  The arguments of a proposed operation: a dictionary with the keys of \<^verbatim>\<open>TOOL_SCHEMAS\<close>,
  each absent (\<open>None\<close>) or present with a value of the declared type.
\<close>

record tool_args =
  a_srs :: "ticket list option"
  a_followup_hours :: "rat option"
  a_sla_hours :: "rat option"
  a_memory :: "memory option"
  a_min_recurrence :: "int option"
  a_classifications :: "classifications option"
  a_stats :: "stats option"
  a_persistent_sites :: "sites_arg option"
  a_action_list :: "action_list option"
  a_shift_id :: "string option"
  a_report :: "report option"
  a_to :: "string option"
  a_subject :: "string option"
  a_smtp_settings :: "(string \<rightharpoonup> string) option"
  a_memory_path :: "string option"

definition no_args :: tool_args where
  "no_args =
     \<lparr>a_srs = None, a_followup_hours = None, a_sla_hours = None, a_memory = None,
      a_min_recurrence = None, a_classifications = None, a_stats = None,
      a_persistent_sites = None, a_action_list = None, a_shift_id = None, a_report = None,
      a_to = None, a_subject = None, a_smtp_settings = None, a_memory_path = None\<rparr>"

text \<open>
  The argument blob of a call as the backend sends it, and what \<^verbatim>\<open>_parse_args\<close> makes
  of it: \<^verbatim>\<open>json.loads\<close> of a string may give a value that is no dictionary.
\<close>

datatype parsed_args = ArgsDict tool_args | ArgsOther

datatype raw_args = RawNone | RawDict tool_args | RawStr string | RawOther

record tool_call =
  call_id :: "string option"
  call_name :: "string option"
  call_arguments :: raw_args

datatype tool_result =
    RStats stats
  | RClassifications classifications
  | RSites persistent_result
  | RActions action_list
  | RSummary string
  | REmail email_result
  | RSaved bool string
  | RLoaded memory
  | RUnknown string

datatype message =
    SystemMsg
  | UserMsg "string option" nat "memory_stats option"
  | AssistantMsg "string option" "tool_call list"
  | ToolMsg "string option" "string option" tool_result

text \<open>What \<^verbatim>\<open>llm.chat\<close> does on one call: it raises, or replies with a content and calls.\<close>

datatype chat_outcome = ChatRaises | ChatReply "string option" "tool_call list"

text \<open>
  The backend is arbitrary: each method is a function of the number of calls made to it
  so far and of what it is sent.
\<close>

record llm =
  chat :: "nat \<Rightarrow> message list \<Rightarrow> chat_outcome"
  generate_text :: "nat \<Rightarrow> payload \<Rightarrow> text_outcome"

text \<open>
  A file holds a JSON document, or cannot be opened, or does not parse.  The world is the
  files and the number of calls made to each backend method.
\<close>

datatype file_state = Unreadable | Corrupt | Doc memory

record world =
  files :: "string \<rightharpoonup> file_state"
  chat_calls :: nat
  text_calls :: nat

text \<open>
  The environment the run reads: the ISO parser and the clock of \<^verbatim>\<open>classify_tickets\<close>,
  the timestamp of \<^verbatim>\<open>datetime.utcnow().isoformat()\<close>, \<^verbatim>\<open>json.loads\<close> on an argument
  string (\<open>None\<close> where it raises), whether a path can be written, the process
  environment, \<^verbatim>\<open>int\<close> on a string (\<open>None\<close> where it raises) and the SMTP delivery of a
  rendered report (\<open>None\<close> when delivered, the exception's text otherwise).
\<close>

record env =
  e_fromiso :: "string \<Rightarrow> rat option"
  e_now :: rat
  e_utcnow :: string
  e_loads :: "string \<Rightarrow> parsed_args option"
  e_writable :: "string \<Rightarrow> bool"
  e_getenv :: "string \<Rightarrow> string option"
  e_int :: "string \<Rightarrow> int option"
  e_deliver :: "string \<Rightarrow> int \<Rightarrow> string option \<Rightarrow> report option \<Rightarrow> string \<Rightarrow> string option"

section \<open>\<^verbatim>\<open>generate_summary\<close>\<close>

definition truthy_stats :: "stats \<Rightarrow> bool" where
  "truthy_stats s =
     (total s \<noteq> None \<or> open' s \<noteq> None \<or> status_counts s \<noteq> None
      \<or> priority_counts s \<noteq> None \<or> avg_age_hours s \<noteq> None)"

definition truthy_classifications :: "classifications \<Rightarrow> bool" where
  "truthy_classifications c =
     (open_issues c \<noteq> None \<or> follow_up_required c \<noteq> None \<or> escalations c \<noteq> None
      \<or> recurrent c \<noteq> None)"

definition truthy_persistent :: "persistent_result \<Rightarrow> bool" where
  "truthy_persistent r = (persistent_sites r \<noteq> None \<or> current_counts r \<noteq> None)"

definition truthy_action_list :: "action_list \<Rightarrow> bool" where
  "truthy_action_list a = (actions a \<noteq> None)"

definition get_int :: "int option \<Rightarrow> int" where
  "get_int v = (case v of None \<Rightarrow> 0 | Some i \<Rightarrow> i)"

definition fallback_summary :: "string option \<Rightarrow> stats \<Rightarrow> classifications \<Rightarrow> string" where
  "fallback_summary shift_id st cls =
     strip (''Shift '' @ (case shift_id of None \<Rightarrow> [] | Some s \<Rightarrow> s) @ '' summary: ''
            @ str_int (get_int (total st)) @ '' SRs handled, ''
            @ str_int (get_int (open' st)) @ '' open, ''
            @ str_nat (length (get_list (escalations cls))) @ '' escalations.'')"

definition sites_dict :: "sites_arg option \<Rightarrow> persistent_result" where
  "sites_dict ps =
     (case ps of
        Some (SitesList l) \<Rightarrow> \<lparr>persistent_sites = Some l, current_counts = None\<rparr>
      | Some (SitesDict d) \<Rightarrow> d
      | None \<Rightarrow> \<lparr>persistent_sites = None, current_counts = None\<rparr>)"

text \<open>
  The text the \<^verbatim>\<open>try\<close> block returns, if any: a reply that is \<^verbatim>\<open>None\<close> raises at
  \<^verbatim>\<open>.strip()\<close> inside the block and is caught like a raising call.
\<close>

definition usable_text :: "text_outcome \<Rightarrow> string option" where
  "usable_text r =
     (case r of TextRaises \<Rightarrow> None | TextNone \<Rightarrow> None
      | Text s \<Rightarrow> if strip s \<noteq> [] then Some (strip s) else None)"

text \<open>
  \<^verbatim>\<open>generate_summary\<close> returns the value of the key \<^verbatim>\<open>summary\<close>.  The payload is built
  before the \<^verbatim>\<open>try\<close>: a \<^verbatim>\<open>None\<close> for the classifications or the action list raises there;
  a \<^verbatim>\<open>None\<close> for the stats raises only in the fallback.
\<close>

definition summary_payload ::
  "stats option \<Rightarrow> classifications \<Rightarrow> sites_arg option \<Rightarrow> action_list \<Rightarrow> string option
   \<Rightarrow> payload" where
  "summary_payload st c ps a shift_id =
     \<lparr>p_shift_id = shift_id, p_stats = st,
      p_open = length (get_list (open_issues c)),
      p_follow_up = length (get_list (follow_up_required c)),
      p_escalations = length (get_list (escalations c)),
      p_persistent_sites = get_list (persistent_sites (sites_dict ps)),
      p_actions = get_list (actions a)\<rparr>"

definition generate_summary ::
  "llm \<Rightarrow> world \<Rightarrow> stats option \<Rightarrow> classifications option \<Rightarrow> sites_arg option
   \<Rightarrow> action_list option \<Rightarrow> string option \<Rightarrow> py_error + (string \<times> world)" where
  "generate_summary l w st cls ps al shift_id =
     (case cls of None \<Rightarrow> Inl AttributeError
      | Some c \<Rightarrow>
     (case al of None \<Rightarrow> Inl AttributeError
      | Some a \<Rightarrow>
        let reply = generate_text l (text_calls w) (summary_payload st c ps a shift_id);
            w' = w\<lparr>text_calls := Suc (text_calls w)\<rparr>
        in (case usable_text reply of
              Some s \<Rightarrow> Inr (s, w')
            | None \<Rightarrow>
               (case st of None \<Rightarrow> Inl AttributeError
                | Some s \<Rightarrow> Inr (fallback_summary shift_id s c, w')))))"

section \<open>\<^verbatim>\<open>load_memory\<close>, \<^verbatim>\<open>save_memory\<close>, \<^verbatim>\<open>update_memory\<close>\<close>

text \<open>Opening and parsing a file that exists; this is the body of the \<^verbatim>\<open>try\<close>.\<close>

definition read_json :: "file_state \<Rightarrow> py_error + memory" where
  "read_json f = (case f of Unreadable \<Rightarrow> Inl OSError | Corrupt \<Rightarrow> Inl ValueError | Doc d \<Rightarrow> Inr d)"

definition load_memory :: "world \<Rightarrow> string \<Rightarrow> memory" where
  "load_memory w path =
     (if path = [] then DEFAULT_MEMORY
      else case files w path of
             None \<Rightarrow> DEFAULT_MEMORY
           | Some f \<Rightarrow> (case read_json f of Inl e \<Rightarrow> DEFAULT_MEMORY | Inr d \<Rightarrow> d))"

definition save_memory :: "env \<Rightarrow> world \<Rightarrow> string \<Rightarrow> memory \<Rightarrow> py_error + (bool \<times> world)" where
  "save_memory ev w path m =
     (if path = [] then Inr (False, w)
      else if e_writable ev path then Inr (True, w\<lparr>files := (files w)(path \<mapsto> Doc m)\<rparr>)
      else Inl OSError)"

text \<open>\<^verbatim>\<open>xs[-n:]\<close> for a positive \<open>n\<close>: the last \<open>n\<close> elements.\<close>

definition last_n :: "nat \<Rightarrow> 'a list \<Rightarrow> 'a list" where
  "last_n n xs = drop (length xs - n) xs"

definition bump_site :: "(string \<rightharpoonup> int) option \<Rightarrow> string \<Rightarrow> (string \<rightharpoonup> int) option" where
  "bump_site sites s =
     (let c = (case sites of None \<Rightarrow> Map.empty | Some c \<Rightarrow> c)
      in Some (c(s \<mapsto> historical c s + 1)))"

text \<open>
  \<^verbatim>\<open>update_memory\<close>.  \<^verbatim>\<open>memory["stats"]\<close> raises \<^verbatim>\<open>KeyError\<close> on a document without that
  key, and so does the final \<^verbatim>\<open>memory["escalations"]\<close> when the key is missing and no
  escalation was appended.  \<open>now\<close> is \<^verbatim>\<open>datetime.utcnow().isoformat()\<close>.
\<close>

definition update_memory ::
  "string \<Rightarrow> memory \<Rightarrow> report \<Rightarrow> classifications \<Rightarrow> string list \<Rightarrow> stats \<Rightarrow> py_error + memory" where
  "update_memory now m rep cls sites st =
     (let m0 = (if truthy_memory m then m else DEFAULT_MEMORY)
      in case m_stats m0 of None \<Rightarrow> Inl KeyError
         | Some ms \<Rightarrow>
           let ms' = \<lparr>total_shifts = Some (get_int (total_shifts ms) + 1),
                      total_srs = Some (get_int (total_srs ms) + get_int (total st))\<rparr>;
               shift = \<lparr>ps_timestamp = now @ ''Z'', ps_shift_id = rp_shift_id rep,
                        ps_summary = rp_summary rep, ps_stats = Some st\<rparr>;
               shifts = last_n 50 (get_list (past_shifts m0) @ [shift]);
               sites' = foldl bump_site (recurring_sites m0) sites;
               log = (if get_list (escalations cls) = [] then m_escalations m0
                      else Some (get_list (m_escalations m0) @ get_list (escalations cls)))
           in (case log of None \<Rightarrow> Inl KeyError
               | Some es \<Rightarrow>
                   Inr \<lparr>past_shifts = Some shifts, recurring_sites = sites',
                        m_escalations = Some (last_n 200 es), m_stats = Some ms'\<rparr>))"

section \<open>\<^verbatim>\<open>send_email\<close>\<close>

text \<open>
  A setting is taken from \<^verbatim>\<open>smtp_settings\<close> when truthy there, else from the process
  environment.  Rendering and delivery sit inside the \<^verbatim>\<open>try\<close> and are the
  environment's \<open>e_deliver\<close>; only the port conversion can raise.
\<close>

definition setting :: "env \<Rightarrow> (string \<rightharpoonup> string) \<Rightarrow> string \<Rightarrow> string option" where
  "setting ev smtp k = or_str (smtp k) (e_getenv ev k)"

definition send_email ::
  "env \<Rightarrow> report option \<Rightarrow> string option \<Rightarrow> string option \<Rightarrow> (string \<rightharpoonup> string)
   \<Rightarrow> py_error + email_result" where
  "send_email ev rep to subject smtp =
     (let host = setting ev smtp ''SMTP_HOST'';
          port_text = (if truthy_str (smtp ''SMTP_PORT'') then fmt (smtp ''SMTP_PORT'')
                       else case e_getenv ev ''SMTP_PORT'' of None \<Rightarrow> ''587'' | Some p \<Rightarrow> p)
      in case e_int ev port_text of None \<Rightarrow> Inl ValueError
         | Some port \<Rightarrow>
           let sender = setting ev smtp ''SMTP_FROM'';
               recipient = or_str to (setting ev smtp ''SMTP_TO'')
           in if \<not> truthy_str host \<or> \<not> truthy_str sender \<or> \<not> truthy_str recipient
              then Inr \<lparr>sent = False, e_message = ''SMTP settings missing; email not sent.'',
                        e_to = recipient\<rparr>
              else (case e_deliver ev (fmt host) port subject rep (fmt recipient) of
                      None \<Rightarrow> Inr \<lparr>sent = True, e_message = ''Email sent.'', e_to = recipient\<rparr>
                    | Some exc \<Rightarrow>
                        Inr \<lparr>sent = False, e_message = ''Email failed: '' @ exc,
                             e_to = recipient\<rparr>))"

section \<open>The orchestrator (\<^verbatim>\<open>agent.py\<close>)\<close>

record agent =
  memory_path :: string
  followup_hours :: rat
  sla_hours :: rat
  max_steps :: nat

text \<open>
  The \<^verbatim>\<open>state\<close> dictionary of a run.  The five artifact slots and \<^verbatim>\<open>email\<close> start as
  \<^verbatim>\<open>None\<close>; the key \<^verbatim>\<open>report\<close> is absent (\<open>None\<close>) until the report is assembled.
\<close>

record state =
  st_srs :: "ticket list"
  st_shift_id :: "string option"
  st_memory :: memory
  st_stats :: "stats option"
  st_classifications :: "classifications option"
  st_persistent_sites :: "persistent_result option"
  st_action_list :: "action_list option"
  st_summary :: "string option"
  st_email :: "email_result option"
  st_report :: "report option"

definition parse_args :: "env \<Rightarrow> raw_args \<Rightarrow> parsed_args" where
  "parse_args ev raw =
     (case raw of
        RawNone \<Rightarrow> ArgsDict no_args
      | RawDict d \<Rightarrow> ArgsDict d
      | RawStr s \<Rightarrow> (case e_loads ev s of None \<Rightarrow> ArgsDict no_args | Some v \<Rightarrow> v)
      | RawOther \<Rightarrow> ArgsDict no_args)"

text \<open>\<^verbatim>\<open>a or b\<close> where \<open>a\<close> is an argument and \<open>b\<close> what the state holds.\<close>

definition or_list :: "'a list option \<Rightarrow> 'a list \<Rightarrow> 'a list" where
  "or_list a b = (case a of None \<Rightarrow> b | Some xs \<Rightarrow> if xs = [] then b else xs)"

definition or_dict :: "('a \<Rightarrow> bool) \<Rightarrow> 'a option \<Rightarrow> 'a option \<Rightarrow> 'a option" where
  "or_dict truthy a b = (case a of None \<Rightarrow> b | Some v \<Rightarrow> if truthy v then Some v else b)"

definition truthy_sites_arg :: "sites_arg \<Rightarrow> bool" where
  "truthy_sites_arg v = (case v of SitesList l \<Rightarrow> l \<noteq> [] | SitesDict d \<Rightarrow> truthy_persistent d)"

definition get_or :: "'a option \<Rightarrow> 'a \<Rightarrow> 'a" where
  "get_or a d = (case a of None \<Rightarrow> d | Some v \<Rightarrow> v)"

definition call_create_action_list ::
  "classifications option \<Rightarrow> ticket list \<Rightarrow> py_error + action_list" where
  "call_create_action_list cls srs =
     (case cls of None \<Rightarrow> Inl AttributeError | Some c \<Rightarrow> Inr (create_action_list c srs))"

text \<open>
  \<^verbatim>\<open>_execute_tool\<close>, on arguments that are a dictionary.  The result is the value
  returned, the state as mutated and the world.
\<close>

definition execute_on ::
  "agent \<Rightarrow> llm \<Rightarrow> env \<Rightarrow> string \<Rightarrow> tool_args \<Rightarrow> state \<Rightarrow> world
   \<Rightarrow> py_error + (tool_result \<times> state \<times> world)" where
  "execute_on ag l ev name args st w =
     (if name = ''analyze_tickets'' then
        let r = analyze_tickets (or_list (a_srs args) (st_srs st))
        in Inr (RStats r, st\<lparr>st_stats := Some r\<rparr>, w)
      else if name = ''classify_tickets'' then
        let r = classify_tickets (e_fromiso ev) (e_now ev) (or_list (a_srs args) (st_srs st))
                  (get_or (a_followup_hours args) (followup_hours ag))
                  (get_or (a_sla_hours args) (sla_hours ag))
        in Inr (RClassifications r, st\<lparr>st_classifications := Some r\<rparr>, w)
      else if name = ''detect_persistent_sites'' then
        let m = (case a_memory args of None \<Rightarrow> st_memory st
                 | Some v \<Rightarrow> if truthy_memory v then v else st_memory st);
            r = detect_persistent_sites (or_list (a_srs args) (st_srs st)) m
                  (get_or (a_min_recurrence args) 2)
        in Inr (RSites r, st\<lparr>st_persistent_sites := Some r\<rparr>, w)
      else if name = ''create_action_list'' then
        (case call_create_action_list
                (or_dict truthy_classifications (a_classifications args) (st_classifications st))
                (or_list (a_srs args) (st_srs st)) of
           Inl e \<Rightarrow> Inl e
         | Inr r \<Rightarrow> Inr (RActions r, st\<lparr>st_action_list := Some r\<rparr>, w))
      else if name = ''generate_summary'' then
        (case generate_summary l w
                (or_dict truthy_stats (a_stats args) (st_stats st))
                (or_dict truthy_classifications (a_classifications args) (st_classifications st))
                (or_dict truthy_sites_arg (a_persistent_sites args)
                   (map_option SitesDict (st_persistent_sites st)))
                (or_dict truthy_action_list (a_action_list args) (st_action_list st))
                (or_str (a_shift_id args) (st_shift_id st)) of
           Inl e \<Rightarrow> Inl e
         | Inr (s, w') \<Rightarrow> Inr (RSummary s, st\<lparr>st_summary := Some s\<rparr>, w'))
      else if name = ''send_email'' then
        (case send_email ev (case a_report args of None \<Rightarrow> st_report st | Some r \<Rightarrow> Some r)
                (a_to args) (a_subject args) (get_or (a_smtp_settings args) Map.empty) of
           Inl e \<Rightarrow> Inl e
         | Inr r \<Rightarrow> Inr (REmail r, st\<lparr>st_email := Some r\<rparr>, w))
      else if name = ''save_memory'' then
        let m = (case a_memory args of None \<Rightarrow> st_memory st
                 | Some v \<Rightarrow> if truthy_memory v then v else st_memory st);
            path = fmt (or_str (a_memory_path args) (Some (memory_path ag)))
        in (case save_memory ev w path m of
              Inl e \<Rightarrow> Inl e
            | Inr (saved, w') \<Rightarrow> Inr (RSaved saved path, st, w'))
      else if name = ''load_memory'' then
        let path = fmt (or_str (a_memory_path args) (Some (memory_path ag)));
            m = load_memory w path
        in Inr (RLoaded m, st\<lparr>st_memory := m\<rparr>, w)
      else Inr (RUnknown (''Unknown tool: '' @ name), st, w))"

definition TOOL_NAMES :: "string list" where
  "TOOL_NAMES =
     [''analyze_tickets'', ''classify_tickets'', ''detect_persistent_sites'',
      ''create_action_list'', ''generate_summary'', ''send_email'', ''save_memory'',
      ''load_memory'']"

text \<open>
  \<^verbatim>\<open>_execute_tool\<close>.  Every handler starts with \<^verbatim>\<open>args.get\<close>, which raises when the
  parsed arguments are no dictionary; an unknown name never reads them.
\<close>

definition execute_tool ::
  "agent \<Rightarrow> llm \<Rightarrow> env \<Rightarrow> string option \<Rightarrow> parsed_args \<Rightarrow> state \<Rightarrow> world
   \<Rightarrow> py_error + (tool_result \<times> state \<times> world)" where
  "execute_tool ag l ev name args st w =
     (case args of
        ArgsDict d \<Rightarrow> execute_on ag l ev (fmt name) d st w
      | ArgsOther \<Rightarrow>
          if name \<noteq> None \<and> fmt name \<in> set TOOL_NAMES then Inl AttributeError
          else Inr (RUnknown (''Unknown tool: '' @ fmt name), st, w))"

text \<open>The test at the head of the loop, and the same truthiness tests of the closure.\<close>

definition has_stats :: "state \<Rightarrow> bool" where
  "has_stats st = (case st_stats st of None \<Rightarrow> False | Some v \<Rightarrow> truthy_stats v)"

definition has_classifications :: "state \<Rightarrow> bool" where
  "has_classifications st =
     (case st_classifications st of None \<Rightarrow> False | Some v \<Rightarrow> truthy_classifications v)"

definition has_persistent_sites :: "state \<Rightarrow> bool" where
  "has_persistent_sites st =
     (case st_persistent_sites st of None \<Rightarrow> False | Some v \<Rightarrow> truthy_persistent v)"

definition has_action_list :: "state \<Rightarrow> bool" where
  "has_action_list st = (case st_action_list st of None \<Rightarrow> False | Some v \<Rightarrow> truthy_action_list v)"

definition has_summary :: "state \<Rightarrow> bool" where
  "has_summary st = truthy_str (st_summary st)"

definition ready :: "state \<Rightarrow> bool" where
  "ready st =
     (has_stats st \<and> has_classifications st \<and> has_persistent_sites st \<and> has_action_list st
      \<and> has_summary st)"

type_synonym run_state = "state \<times> message list \<times> world"

text \<open>The inner loop over the calls of one reply.\<close>

fun run_calls :: "agent \<Rightarrow> llm \<Rightarrow> env \<Rightarrow> tool_call list \<Rightarrow> run_state \<Rightarrow> py_error + run_state" where
  "run_calls ag l ev [] x = Inr x"
| "run_calls ag l ev (c # cs) (st, msgs, w) =
     (case execute_tool ag l ev (call_name c) (parse_args ev (call_arguments c)) st w of
        Inl e \<Rightarrow> Inl e
      | Inr (r, st', w') \<Rightarrow>
          run_calls ag l ev cs (st', msgs @ [ToolMsg (call_id c) (call_name c) r], w'))"

text \<open>
  \<^verbatim>\<open>for _ in range(self.max_steps)\<close>, with the number of iterations left.  A reply with
  no calls ends the loop, its stripped content adopted as the summary when there is none.
\<close>

fun run_loop :: "agent \<Rightarrow> llm \<Rightarrow> env \<Rightarrow> nat \<Rightarrow> run_state \<Rightarrow> py_error + run_state" where
  "run_loop ag l ev 0 x = Inr x"
| "run_loop ag l ev (Suc n) (st, msgs, w) =
     (if ready st then Inr (st, msgs, w)
      else case chat l (chat_calls w) msgs of
             ChatRaises \<Rightarrow> Inl BackendError
           | ChatReply content calls \<Rightarrow>
               let w1 = w\<lparr>chat_calls := Suc (chat_calls w)\<rparr>
               in if calls = [] then
                    let text = strip (get_or content [])
                    in Inr (if text \<noteq> [] \<and> \<not> has_summary st
                            then st\<lparr>st_summary := Some text\<rparr> else st, msgs, w1)
                  else (case run_calls ag l ev calls (st, msgs @ [AssistantMsg content calls], w1) of
                          Inl e \<Rightarrow> Inl e
                        | Inr x \<Rightarrow> run_loop ag l ev n x))"

text \<open>The closure after the loop: each artifact still missing is computed, in this order.\<close>

definition fill_stats :: "ticket list \<Rightarrow> state \<Rightarrow> state" where
  "fill_stats srs st = (if has_stats st then st else st\<lparr>st_stats := Some (analyze_tickets srs)\<rparr>)"

definition fill_classifications :: "agent \<Rightarrow> env \<Rightarrow> ticket list \<Rightarrow> state \<Rightarrow> state" where
  "fill_classifications ag ev srs st =
     (if has_classifications st then st
      else st\<lparr>st_classifications :=
                Some (classify_tickets (e_fromiso ev) (e_now ev) srs (followup_hours ag)
                        (sla_hours ag))\<rparr>)"

definition fill_persistent_sites :: "ticket list \<Rightarrow> memory \<Rightarrow> state \<Rightarrow> state" where
  "fill_persistent_sites srs m st =
     (if has_persistent_sites st then st
      else st\<lparr>st_persistent_sites := Some (detect_persistent_sites srs m 2)\<rparr>)"

definition fill_action_list :: "ticket list \<Rightarrow> state \<Rightarrow> py_error + state" where
  "fill_action_list srs st =
     (if has_action_list st then Inr st
      else case call_create_action_list (st_classifications st) srs of
             Inl e \<Rightarrow> Inl e
           | Inr r \<Rightarrow> Inr (st\<lparr>st_action_list := Some r\<rparr>))"

definition fill_summary :: "llm \<Rightarrow> string option \<Rightarrow> state \<Rightarrow> world \<Rightarrow> py_error + (state \<times> world)" where
  "fill_summary l shift_id st w =
     (if has_summary st then Inr (st, w)
      else case generate_summary l w (st_stats st) (st_classifications st)
                  (map_option SitesDict (st_persistent_sites st)) (st_action_list st) shift_id of
             Inl e \<Rightarrow> Inl e
           | Inr (s, w') \<Rightarrow> Inr (st\<lparr>st_summary := Some s\<rparr>, w'))"

definition backfill ::
  "agent \<Rightarrow> llm \<Rightarrow> env \<Rightarrow> ticket list \<Rightarrow> memory \<Rightarrow> string option \<Rightarrow> state \<Rightarrow> world
   \<Rightarrow> py_error + (state \<times> world)" where
  "backfill ag l ev srs m shift_id st w =
     (case fill_action_list srs
             (fill_persistent_sites srs m (fill_classifications ag ev srs (fill_stats srs st))) of
        Inl e \<Rightarrow> Inl e
      | Inr st4 \<Rightarrow> fill_summary l shift_id st4 w)"

definition build_report :: "string option \<Rightarrow> state \<Rightarrow> py_error + report" where
  "build_report shift_id st =
     (case st_action_list st of None \<Rightarrow> Inl AttributeError
      | Some al \<Rightarrow>
     (case st_persistent_sites st of None \<Rightarrow> Inl AttributeError
      | Some ps \<Rightarrow>
          Inr \<lparr>rp_shift_id = shift_id, rp_summary = st_summary st, rp_stats = st_stats st,
               rp_classifications = st_classifications st,
               rp_actions = get_list (actions al),
               rp_persistent_sites = get_list (persistent_sites ps)\<rparr>))"

text \<open>
  The tail of \<^verbatim>\<open>run\<close>, shared by both paths: update the memory loaded at the start,
  save it, and return the report with the two extra keys.  \<open>em\<close> is the email outcome.
\<close>

definition finish ::
  "agent \<Rightarrow> env \<Rightarrow> world \<Rightarrow> memory \<Rightarrow> report \<Rightarrow> classifications option \<Rightarrow> stats option
   \<Rightarrow> (report \<Rightarrow> py_error + email_result option) \<Rightarrow> py_error + (run_result \<times> world)" where
  "finish ag ev w m rep cls st email =
     (case cls of None \<Rightarrow> Inl AttributeError
      | Some c \<Rightarrow>
     (case st of None \<Rightarrow> Inl AttributeError
      | Some s \<Rightarrow>
     (case update_memory (e_utcnow ev) m rep c (rp_persistent_sites rep) s of
        Inl e \<Rightarrow> Inl e
      | Inr m' \<Rightarrow>
     (case save_memory ev w (memory_path ag) m' of
        Inl e \<Rightarrow> Inl e
      | Inr (saved, w') \<Rightarrow>
     (case email rep of
        Inl e \<Rightarrow> Inl e
      | Inr em \<Rightarrow>
          Inr (report.extend rep \<lparr>rr_email = em, rr_memory_updated = saved\<rparr>, w'))))))"

definition empty_report :: "string option \<Rightarrow> report" where
  "empty_report shift_id =
     \<lparr>rp_shift_id = shift_id, rp_summary = Some ''No SRs provided for this shift.'',
      rp_stats = Some \<lparr>total = Some 0, open' = Some 0, status_counts = None,
                       priority_counts = None, avg_age_hours = None\<rparr>,
      rp_classifications = Some \<lparr>open_issues = Some [], follow_up_required = Some [],
                                 escalations = Some [], recurrent = Some []\<rparr>,
      rp_actions = [\<lparr>action = ''No actions required.'', act_sr_id = None,
                     act_priority = ''low''\<rparr>],
      rp_persistent_sites = []\<rparr>"

definition initial_state :: "ticket list \<Rightarrow> string option \<Rightarrow> memory \<Rightarrow> state" where
  "initial_state srs shift_id m =
     \<lparr>st_srs = srs, st_shift_id = shift_id, st_memory = m, st_stats = None,
      st_classifications = None, st_persistent_sites = None, st_action_list = None,
      st_summary = None, st_email = None, st_report = None\<rparr>"

definition run ::
  "agent \<Rightarrow> llm \<Rightarrow> env \<Rightarrow> world \<Rightarrow> ticket list \<Rightarrow> string option \<Rightarrow> bool \<Rightarrow> string option
   \<Rightarrow> py_error + (run_result \<times> world)" where
  "run ag l ev w srs shift_id notify_email email_to =
     (let m = load_memory w (memory_path ag)
      in if srs = [] then
           finish ag ev w m (empty_report shift_id) (rp_classifications (empty_report shift_id))
             (rp_stats (empty_report shift_id)) (\<lambda>rep. Inr None)
         else
           (case run_loop ag l ev (max_steps ag)
                   (initial_state srs shift_id m,
                    [SystemMsg, UserMsg shift_id (length srs) (m_stats m)], w) of
              Inl e \<Rightarrow> Inl e
            | Inr (st, msgs, w1) \<Rightarrow>
           (case backfill ag l ev srs m shift_id st w1 of
              Inl e \<Rightarrow> Inl e
            | Inr (st5, w2) \<Rightarrow>
           (case build_report shift_id st5 of
              Inl e \<Rightarrow> Inl e
            | Inr rep \<Rightarrow>
                finish ag ev w2 m rep (st_classifications st5) (st_stats st5)
                  (\<lambda>rep. if notify_email \<or> truthy_str email_to
                          then map_sum id Some (send_email ev (Some rep) email_to None Map.empty)
                          else Inr None)))))"

section \<open>What the specification says, in its own words\<close>

text \<open>
  The fixed summary template of the specification:
  \<^verbatim>\<open>Shift <id> summary: <total> SRs handled, <open> open, <n> escalations.\<close>
\<close>

definition summary_template :: "string \<Rightarrow> int \<Rightarrow> int \<Rightarrow> nat \<Rightarrow> string" where
  "summary_template ident n_total n_open n_esc =
     ''Shift '' @ ident @ '' summary: '' @ str_int n_total @ '' SRs handled, ''
     @ str_int n_open @ '' open, '' @ str_nat n_esc @ '' escalations.''"


section \<open>Readings of documents and of the dispatcher, used by the statements\<close>











section \<open>Example inputs\<close>

text \<open>A ticket with no key set, and tickets that differ from it in a few keys.\<close>

definition blank_ticket :: ticket where
  "blank_ticket =
     \<lparr>id' = None, sr_id = None, title = None, description = None, status = None,
      priority = None, last_update = None, notes' = None, escalation_flag = None,
      age_hours = None, site = None, node = None, reopen_count = None\<rparr>"

definition closed_ticket :: ticket where
  "closed_ticket =
     blank_ticket\<lparr>id' := Some ''SR-1'', status := Some '' Closed '',
                  priority := Some ''P1'', last_update := Some ''2024-01-01T00:00:00Z'',
                  notes' := Some ''pending vendor, waiting''\<rparr>"

definition open_ticket :: ticket where
  "open_ticket =
     blank_ticket\<lparr>id' := Some ''SR-2'', status := Some ''Open'', site := Some '' ATH-01 ''\<rparr>"

definition no_classifications :: classifications where
  "no_classifications =
     \<lparr>open_issues = Some [], follow_up_required = Some [], escalations = Some [],
      recurrent = Some []\<rparr>"

definition empty_world :: world where
  "empty_world = \<lparr>files = Map.empty, chat_calls = 0, text_calls = 0\<rparr>"




text \<open>An agent, an environment in which nothing outside fails, and two backends.\<close>

definition small_agent :: agent where
  "small_agent =
     \<lparr>memory_path = ''memory.json'', followup_hours = 8, sla_hours = 24, max_steps = 10\<rparr>"

definition plain_env :: env where
  "plain_env =
     \<lparr>e_fromiso = (\<lambda>s. None), e_now = 0, e_utcnow = ''2024-01-01T00:00:00'',
      e_loads = (\<lambda>s. None), e_writable = (\<lambda>p. True), e_getenv = (\<lambda>k. None),
      e_int = (\<lambda>s. Some 587), e_deliver = (\<lambda>host port subject rep recipient. None)\<rparr>"

text \<open>A backend whose every reply proposes \<^verbatim>\<open>create_action_list\<close> with no arguments.\<close>

definition hasty_llm :: llm where
  "hasty_llm =
     \<lparr>chat = (\<lambda>n msgs. ChatReply None
                 [\<lparr>call_id = Some ''c1'', call_name = Some ''create_action_list'',
                   call_arguments = RawNone\<rparr>]),
      generate_text = (\<lambda>n p. TextRaises)\<rparr>"



section \<open>The classifier: closed tickets\<close>

lemma foldl_classify_step:
  "foldl (classify_step f now fh sh) (ois, fus, escs, recs) srs =
     (ois @ map open_issue_of (filter (\<lambda>sr. \<not> is_closed (status sr)) srs),
      fus @ map (follow_up_of f now) (filter (needs_followup f now fh) srs),
      escs @ map escalation_of (filter (is_escalation f now sh) srs),
      recs @ map recurrent_of
               (filter (\<lambda>sr. reopen_count sr \<noteq> None \<and> reopen_count sr \<noteq> Some 0) srs))"
  by (induction srs arbitrary: ois fus escs recs) (simp_all add: classify_step_def)

lemma classify_tickets_lists:
  "classify_tickets f now srs fh sh =
     \<lparr>open_issues = Some (map open_issue_of (filter (\<lambda>sr. \<not> is_closed (status sr)) srs)),
      follow_up_required =
        Some (map (follow_up_of f now) (filter (needs_followup f now fh) srs)),
      escalations = Some (map escalation_of (filter (is_escalation f now sh) srs)),
      recurrent = Some (map recurrent_of
               (filter (\<lambda>sr. reopen_count sr \<noteq> None \<and> reopen_count sr \<noteq> Some 0) srs))\<rparr>"
  by (simp add: classify_tickets_def foldl_classify_step)

lemma needs_followup_open: "needs_followup f now fh sr \<Longrightarrow> \<not> is_closed (status sr)"
  by (simp add: needs_followup_def Let_def)

text \<open>
  Claim C2.  A ticket whose normalized status is in the closed vocabulary contributes
  nothing to \<^verbatim>\<open>open_issues\<close> or \<^verbatim>\<open>follow_up_required\<close>, whatever its other fields, the
  clock and the thresholds: both lists are those of the batch without the ticket, and the
  entry the classifier would build for the ticket is in neither.
\<close>

theorem closed_ticket_in_neither_list:
  assumes "is_closed (status t)"
  shows "open_issues (classify_tickets f now (xs @ t # ys) fh sh)
           = open_issues (classify_tickets f now (xs @ ys) fh sh)
       \<and> follow_up_required (classify_tickets f now (xs @ t # ys) fh sh)
           = follow_up_required (classify_tickets f now (xs @ ys) fh sh)
       \<and> open_issue_of t
           \<notin> set (get_list (open_issues (classify_tickets f now (xs @ t # ys) fh sh)))
       \<and> follow_up_of f now t
           \<notin> set (get_list (follow_up_required (classify_tickets f now (xs @ t # ys) fh sh)))"
proof -
  have nf: "\<not> needs_followup f now fh t"
    using assms needs_followup_open by blast
  have oi: "open_issue_of t \<noteq> open_issue_of sr" if "\<not> is_closed (status sr)" for sr
    using that assms by (auto simp: open_issue_of_def)
  have fu: "follow_up_of f now t \<noteq> follow_up_of f now sr" if "needs_followup f now fh sr" for sr
    using needs_followup_open[OF that] assms by (auto simp: follow_up_of_def)
  show ?thesis
    using assms nf oi fu by (auto simp: classify_tickets_lists get_list_def)
qed

theorem closed_ticket_in_neither_list_witness:
  "is_closed (status closed_ticket)
   \<and> open_issues (classify_tickets (\<lambda>s. Some 0) 100 ([open_ticket] @ closed_ticket # []) 8 24)
       = open_issues (classify_tickets (\<lambda>s. Some 0) 100 ([open_ticket] @ []) 8 24)
   \<and> follow_up_required
         (classify_tickets (\<lambda>s. Some 0) 100 ([open_ticket] @ closed_ticket # []) 8 24)
       = follow_up_required (classify_tickets (\<lambda>s. Some 0) 100 ([open_ticket] @ []) 8 24)"
proof -
  have h: "is_closed (status closed_ticket)"
    by code_simp
  show ?thesis
    using h closed_ticket_in_neither_list [OF h, of "\<lambda>s. Some 0" 100 "[open_ticket]" "[]" 8 24]
    by blast
qed

section \<open>The site detector\<close>

lemma keys_bump: "fst ` set (bump kvs k) = insert k (fst ` set kvs)"
  by (induction kvs k rule: bump.induct) auto

lemma keys_count_site:
  "fst ` set (foldl count_site acc srs)
     = fst ` set acc \<union> {k. \<exists>sr \<in> set srs. site_key sr = Some k}"
  by (induction srs arbitrary: acc) (auto simp: count_site_def keys_bump split: option.splits)

lemma site_key_raw:
  "site_key sr = Some k \<Longrightarrow> \<exists>raw. (site sr = Some raw \<or> node sr = Some raw) \<and> k = strip raw"
  by (auto simp: site_key_def or_str_def split: option.splits if_splits)

text \<open>
  Claim C3.  With the tickets and the memory fixed, raising the minimum recurrence from
  \<open>t1\<close> to \<open>t2\<close> can only remove sites: the persistent sites at \<open>t2\<close> are among those at
  \<open>t1\<close>.
\<close>

theorem persistent_sites_antimono:
  assumes "t1 \<le> t2"
  shows "set (get_list (persistent_sites (detect_persistent_sites srs m t2)))
         \<subseteq> set (get_list (persistent_sites (detect_persistent_sites srs m t1)))"
  using assms by (auto simp: detect_persistent_sites_def Let_def get_list_def)

theorem persistent_sites_antimono_witness:
  "(2 :: int) \<le> 3
   \<and> set (get_list (persistent_sites
                      (detect_persistent_sites [open_ticket, open_ticket] DEFAULT_MEMORY 3)))
     \<subseteq> set (get_list (persistent_sites
                      (detect_persistent_sites [open_ticket, open_ticket] DEFAULT_MEMORY 2)))"
proof -
  have h: "(2 :: int) \<le> 3" by simp
  show ?thesis
    using h persistent_sites_antimono [OF h, of "[open_ticket, open_ticket]" DEFAULT_MEMORY]
    by blast
qed

text \<open>
  Claim C10.  Every site reported as persistent is the key of a ticket of the current
  batch: some ticket carries it, stripped of surrounding blanks, in its \<^verbatim>\<open>site\<close> or
  \<^verbatim>\<open>node\<close> field.  The memory is arbitrary, so a site that only the memory knows, however
  large its historical count, is never reported.
\<close>

theorem persistent_site_in_batch:
  assumes "s \<in> set (get_list (persistent_sites (detect_persistent_sites srs m t)))"
  shows "\<exists>sr \<in> set srs. site_key sr = Some s
           \<and> (\<exists>raw. (site sr = Some raw \<or> node sr = Some raw) \<and> s = strip raw)"
proof -
  from assms have "s \<in> fst ` set (foldl count_site [] srs)"
    by (auto simp: detect_persistent_sites_def Let_def get_list_def)
  then obtain sr where "sr \<in> set srs" "site_key sr = Some s"
    by (auto simp: keys_count_site)
  then show ?thesis
    using site_key_raw by blast
qed

theorem persistent_site_in_batch_witness:
  "''ATH-01'' \<in> set (get_list (persistent_sites
                         (detect_persistent_sites [open_ticket, open_ticket] DEFAULT_MEMORY 2)))
   \<and> (\<exists>sr \<in> set [open_ticket, open_ticket]. site_key sr = Some ''ATH-01''
           \<and> (\<exists>raw. (site sr = Some raw \<or> node sr = Some raw) \<and> ''ATH-01'' = strip raw))"
proof -
  have h: "''ATH-01'' \<in> set (get_list (persistent_sites
                         (detect_persistent_sites [open_ticket, open_ticket] DEFAULT_MEMORY 2)))"
    by code_simp
  show ?thesis
    using h persistent_site_in_batch [OF h] by blast
qed

section \<open>The action builder\<close>

text \<open>
  Claim C4, as amended.  With no escalation and no follow-up the action list is exactly one
  sentinel, whose text is \<^verbatim>\<open>No critical actions detected.\<close> and whose priority is
  \<^verbatim>\<open>low\<close>; otherwise it is one action per escalation followed by one per follow-up,
  each in the order of its source list.
\<close>

theorem create_action_list_actions:
  "actions (create_action_list cls srs) =
     Some (if get_list (escalations cls) = [] \<and> get_list (follow_up_required cls) = []
           then [\<lparr>action = ''No critical actions detected.'', act_sr_id = None,
                   act_priority = ''low''\<rparr>]
           else map escalation_action (get_list (escalations cls))
                @ map follow_up_action (get_list (follow_up_required cls)))"
  by (simp add: create_action_list_def sentinel_action_def Let_def)

theorem create_action_list_actions_witness:
  "actions (create_action_list no_classifications [open_ticket]) =
     Some [\<lparr>action = ''No critical actions detected.'', act_sr_id = None,
            act_priority = ''low''\<rparr>]"
  using create_action_list_actions [of no_classifications "[open_ticket]"]
  by (simp add: no_classifications_def get_list_def)

text \<open>
  The claim as stated asks for the text \<^verbatim>\<open>no actions required\<close>, which this function
  never emits.
\<close>

theorem sentinel_text_counterexample:
  "map action (get_list (actions (create_action_list no_classifications [open_ticket])))
     = [''No critical actions detected.'']
   \<and> ''No critical actions detected.'' \<noteq> ''no actions required''"
  by (simp add: create_action_list_def sentinel_action_def no_classifications_def get_list_def
      Let_def)

section \<open>The summary composer\<close>

lemma strip_keep: "\<not> isspace a \<Longrightarrow> \<not> isspace b \<Longrightarrow> strip (a # xs @ [b]) = a # xs @ [b]"
  by (simp add: strip_def)



lemma fallback_is_template:
  "fallback_summary sid st c =
     summary_template (get_or sid []) (get_int (total st)) (get_int (open' st))
       (length (get_list (escalations c)))"
proof -
  have a: "\<not> isspace CHR ''S''" and b: "\<not> isspace CHR ''.''"
    by (simp_all add: isspace_def)
  have "summary_template ident x y n
          = CHR ''S'' # (''hift '' @ ident @ '' summary: '' @ str_int x @ '' SRs handled, ''
              @ str_int y @ '' open, '' @ str_nat n @ '' escalations'') @ [CHR ''.'']"
    for ident x y n
    by (simp add: summary_template_def)
  then have key: "strip (summary_template ident x y n) = summary_template ident x y n"
    for ident x y n
    using strip_keep[OF a b] by metis
  have "fallback_summary sid st c =
          strip (summary_template (get_or sid []) (get_int (total st)) (get_int (open' st))
                   (length (get_list (escalations c))))"
    by (cases sid) (simp_all add: fallback_summary_def summary_template_def get_or_def)
  then show ?thesis
    by (simp only: key)
qed



section \<open>The memory store\<close>

text \<open>
  Claim C6.  \<^verbatim>\<open>load_memory\<close> returns a document for every path and every state of the
  files (both operations that can raise, opening and parsing, are caught): the zeroed
  default when the path is empty, the file is missing, or opening or parsing it fails;
  the parsed document otherwise.
\<close>

theorem load_memory_total:
  "(path = [] \<or> files w path = None \<or> files w path = Some Unreadable
      \<or> files w path = Some Corrupt
    \<longrightarrow> load_memory w path =
          \<lparr>past_shifts = Some [], recurring_sites = Some Map.empty, m_escalations = Some [],
           m_stats = Some \<lparr>total_shifts = Some 0, total_srs = Some 0\<rparr>\<rparr>)
   \<and> (path \<noteq> [] \<and> files w path = Some (Doc d) \<longrightarrow> load_memory w path = d)
   \<and> (\<exists>e. read_json Unreadable = Inl e) \<and> (\<exists>e. read_json Corrupt = Inl e)
   \<and> read_json (Doc d) = Inr d"
  by (auto simp: load_memory_def read_json_def DEFAULT_MEMORY_def)

theorem load_memory_total_witness:
  "load_memory (empty_world\<lparr>files := [''m.json'' \<mapsto> Corrupt]\<rparr>) ''m.json'' =
          \<lparr>past_shifts = Some [], recurring_sites = Some Map.empty, m_escalations = Some [],
           m_stats = Some \<lparr>total_shifts = Some 0, total_srs = Some 0\<rparr>\<rparr>
   \<and> load_memory (empty_world\<lparr>files := [''m.json'' \<mapsto> Doc (DEFAULT_MEMORY\<lparr>past_shifts := None\<rparr>)]\<rparr>)
        ''m.json'' = DEFAULT_MEMORY\<lparr>past_shifts := None\<rparr>"
  using load_memory_total [of "''m.json''" "empty_world\<lparr>files := [''m.json'' \<mapsto> Corrupt]\<rparr>"]
    load_memory_total [of "''m.json''"
      "empty_world\<lparr>files := [''m.json'' \<mapsto> Doc (DEFAULT_MEMORY\<lparr>past_shifts := None\<rparr>)]\<rparr>"
      "DEFAULT_MEMORY\<lparr>past_shifts := None\<rparr>"]
  by simp










section \<open>The dispatcher: arguments and state\<close>



















section \<open>The orchestrator: slots, loop and closure\<close>

lemma truthy_analyze: "truthy_stats (analyze_tickets srs)"
  by (simp add: truthy_stats_def analyze_tickets_def Let_def)

lemma truthy_classify: "truthy_classifications (classify_tickets f now srs fh sh)"
  by (simp add: truthy_classifications_def classify_tickets_lists)

lemma truthy_detect: "truthy_persistent (detect_persistent_sites srs m t)"
  by (simp add: truthy_persistent_def detect_persistent_sites_def Let_def)

lemma truthy_create: "truthy_action_list (create_action_list c srs)"
  by (simp add: truthy_action_list_def create_action_list_def Let_def)

lemma summary_nonempty:
  assumes "generate_summary l w st cls ps al sid = Inr (s, w')"
  shows "s \<noteq> []"
proof -
  have t: "summary_template i a b n \<noteq> []" for i a b n
    by (simp add: summary_template_def)
  have u: "usable_text r = Some x \<Longrightarrow> x \<noteq> []" for r x
    by (cases r) (auto simp: usable_text_def split: if_splits)
  show ?thesis
    using assms t u
    by (auto simp: generate_summary_def Let_def fallback_is_template
        split: option.splits)
qed

lemma generate_summary_returns:
  "\<exists>s w'. generate_summary l w (Some st) (Some c) ps (Some a) sid = Inr (s, w')"
  by (auto simp: generate_summary_def Let_def split: option.splits)









lemma backfill_completes:
  "\<exists>st' w'. backfill ag l ev srs m sid st w = Inr (st', w') \<and> ready st'"
proof -
  define s1 where "s1 = fill_stats srs st"
  define s2 where "s2 = fill_classifications ag ev srs s1"
  define s3 where "s3 = fill_persistent_sites srs m s2"
  have h1: "has_stats s1"
    by (simp add: s1_def fill_stats_def has_stats_def truthy_analyze)
  have h2: "has_stats s2 \<and> has_classifications s2"
    using h1 by (simp add: s2_def fill_classifications_def has_stats_def
        has_classifications_def truthy_classify)
  have h3: "has_stats s3 \<and> has_classifications s3 \<and> has_persistent_sites s3"
    using h2 by (simp add: s3_def fill_persistent_sites_def has_stats_def
        has_classifications_def has_persistent_sites_def truthy_detect)
  obtain s4 where f4: "fill_action_list srs s3 = Inr s4"
    and h4: "has_stats s4 \<and> has_classifications s4 \<and> has_persistent_sites s4
             \<and> has_action_list s4"
  proof (cases "has_action_list s3")
    case True
    then show ?thesis
      using h3 that [of s3] by (simp add: fill_action_list_def)
  next
    case False
    from h3 obtain b where b: "st_classifications s3 = Some b"
      by (auto simp: has_classifications_def split: option.splits)
    have "has_stats (s3\<lparr>st_action_list := Some (create_action_list b srs)\<rparr>)
          \<and> has_classifications (s3\<lparr>st_action_list := Some (create_action_list b srs)\<rparr>)
          \<and> has_persistent_sites (s3\<lparr>st_action_list := Some (create_action_list b srs)\<rparr>)
          \<and> has_action_list (s3\<lparr>st_action_list := Some (create_action_list b srs)\<rparr>)"
      using h3 by (simp add: has_stats_def has_classifications_def has_persistent_sites_def
          has_action_list_def truthy_create)
    then show ?thesis
      using False b that [of "s3\<lparr>st_action_list := Some (create_action_list b srs)\<rparr>"]
      by (simp add: fill_action_list_def call_create_action_list_def)
  qed
  obtain s5 w5 where f5: "fill_summary l sid s4 w = Inr (s5, w5)" and h5: "ready s5"
  proof (cases "has_summary s4")
    case True
    then show ?thesis
      using h4 that [of s4 w] by (simp add: fill_summary_def ready_def)
  next
    case False
    from h4 obtain a b c where some: "st_stats s4 = Some a" "st_classifications s4 = Some b"
      "st_action_list s4 = Some c"
      by (auto simp: has_stats_def has_classifications_def has_action_list_def
          split: option.splits)
    obtain t w'' where g: "generate_summary l w (st_stats s4) (st_classifications s4)
        (map_option SitesDict (st_persistent_sites s4)) (st_action_list s4) sid = Inr (t, w'')"
      using some generate_summary_returns [of l w a b
          "map_option SitesDict (st_persistent_sites s4)" c sid]
      by auto
    have "t \<noteq> []"
      using summary_nonempty [OF g] .
    then have "ready (s4\<lparr>st_summary := Some t\<rparr>)"
      using h4 by (simp add: ready_def has_stats_def has_classifications_def
          has_persistent_sites_def has_action_list_def has_summary_def truthy_str_def)
    then show ?thesis
      using False g that [of "s4\<lparr>st_summary := Some t\<rparr>" w'']
      by (simp add: fill_summary_def)
  qed
  show ?thesis
    using f4 f5 h5 by (simp add: backfill_def s1_def s2_def s3_def)
qed




section \<open>The run as a whole\<close>

lemma closure_gives_report:
  "\<exists>st5 w2 rep. backfill ag l ev srs m sid st w = Inr (st5, w2) \<and> ready st5
       \<and> build_report sid st5 = Inr rep
       \<and> truthy_str (rp_summary rep) \<and> rp_stats rep \<noteq> None \<and> rp_classifications rep \<noteq> None"
proof -
  obtain st5 w2 where b: "backfill ag l ev srs m sid st w = Inr (st5, w2)" and r: "ready st5"
    using backfill_completes by blast
  from r obtain al ps where s: "st_action_list st5 = Some al" "st_persistent_sites st5 = Some ps"
    by (auto simp: ready_def has_action_list_def has_persistent_sites_def split: option.splits)
  have "truthy_str (st_summary st5) \<and> st_stats st5 \<noteq> None \<and> st_classifications st5 \<noteq> None"
    using r by (auto simp: ready_def has_summary_def has_stats_def has_classifications_def
        split: option.splits)
  then show ?thesis
    using b r s by (simp add: build_report_def)
qed


text \<open>
  Claim C1 fails on the code at this input: one ticket, and a backend whose first reply
  proposes \<^verbatim>\<open>create_action_list\<close> without arguments.  The classifications slot still
  holds \<^verbatim>\<open>None\<close>, the default of \<^verbatim>\<open>state.get("classifications", {})\<close> does not apply to a
  key that is present, and \<^verbatim>\<open>None.get\<close> raises out of \<^verbatim>\<open>run\<close>: no report is returned.
  The lemmas \<open>run_loop_has\<close> and \<open>closure_gives_report\<close> above are the part of the
  claim that holds: a loop that returns has asked the backend at most \<^verbatim>\<open>max_steps\<close>
  times, and the closure then always returns with all five slots filled, from which the
  report is assembled.
\<close>

theorem run_raises_on_early_action_list:
  "run small_agent hasty_llm plain_env empty_world [open_ticket] (Some ''N7'') False None
     = Inl AttributeError"
proof -
  have "map_sum id (\<lambda>x. ())
          (run small_agent hasty_llm plain_env empty_world [open_ticket] (Some ''N7'') False None)
        = Inl AttributeError"
    by code_simp
  then show ?thesis
    by (cases "run small_agent hasty_llm plain_env empty_world [open_ticket] (Some ''N7'') False
                 None") auto
qed

end
